theory Spec2Isabelle
  imports Main "HOL-Library.Word"
begin

unbundle bit_operations_syntax

section \<open>Data model\<close>

text \<open>
  The program is one Python module, \<^verbatim>\<open>main.py\<close>: a register map and functions that read
  and write 32-bit values of a Modbus device, two holding registers of 16 bits each.
  Python's integers are unbounded, so they are \<^typ>\<open>int\<close> here; a register word is an
  \<^typ>\<open>int\<close> too, as it is in the list \<^verbatim>\<open>response.registers\<close>.
\<close>

text \<open>
  A Python float is modelled on the binary32 values only, each identified with its
  IEEE-754 bit pattern (sign, 8 exponent bits, 23 fraction bits): these are the values
  the format \<^verbatim>\<open>'>f'\<close> of \<^verbatim>\<open>struct\<close> converts without rounding. Doubles that are no
  binary32 value, which \<^verbatim>\<open>struct.pack\<close> rounds or rejects, are outside the model.
\<close>

type_synonym float32 = "32 word"

text \<open>The four bytes of a \<^verbatim>\<open>bytes\<close> object of the formats \<^verbatim>\<open>'>f'\<close> and \<^verbatim>\<open>'>HH'\<close>, first byte first.\<close>

type_synonym bytes4 = "8 word \<times> 8 word \<times> 8 word \<times> 8 word"

definition is_finite32 :: "float32 \<Rightarrow> bool" where
  "is_finite32 f = (drop_bit 23 f AND 255 \<noteq> 255)"

datatype reg_type = Float | UInt32

datatype access_mode = R | RW

record reg =
  address :: int
  rtype :: reg_type
  rlength :: int
  unit_str :: string
  description :: string
  access :: access_mode

text \<open>
  The dictionary \<^verbatim>\<open>registers\<close>, in insertion order, which is the order \<^verbatim>\<open>items()\<close>
  iterates in. The degree sign of the unit of \<^verbatim>\<open>sptw\<close> is its two UTF-8 bytes.
\<close>

definition registers :: "(string \<times> reg) list" where
  "registers =
    [(''state'', \<lparr>address = 30, rtype = UInt32, rlength = 2, unit_str = '''',
        description = ''State'', access = RW\<rparr>),
     (''sptw'', \<lparr>address = 32, rtype = Float, rlength = 2,
        unit_str = [CHR 0xC2, CHR 0xB0, CHR ''C''],
        description = ''Target Water Temperature'', access = RW\<rparr>),
     (''sptwh'', \<lparr>address = 34, rtype = Float, rlength = 2, unit_str = ''K'',
        description = ''Hysteresis Water Temperature'', access = RW\<rparr>),
     (''spp'', \<lparr>address = 36, rtype = UInt32, rlength = 2, unit_str = ''W'',
        description = ''Target Heating Power'', access = RW\<rparr>),
     (''ni'', \<lparr>address = 38, rtype = UInt32, rlength = 2, unit_str = ''ms'',
        description = ''Soldering Interval'', access = RW\<rparr>)]"

text \<open>The exceptions the module can raise; it catches \<^verbatim>\<open>ValueError\<close> in one place only.\<close>

datatype error = ValueError | IndexError | KeyError | EOFError | StructError

text \<open>A value read from a register: what \<^verbatim>\<open>read_uint32\<close> or \<^verbatim>\<open>read_float\<close> returned.\<close>

datatype pyvalue = IntV int | FloatV float32

section \<open>The environment: Modbus client, builtins, console and log\<close>

text \<open>
  The client of \<^verbatim>\<open>pymodbus\<close> and the builtins \<^verbatim>\<open>int\<close> and \<^verbatim>\<open>float\<close> are no code of
  this module: they are parameters. A read answers with an error response
  (\<^verbatim>\<open>isError()\<close> is true: \<open>None\<close>) or with the list \<^verbatim>\<open>registers\<close>; a write answers
  with \<^verbatim>\<open>isError()\<close>. Both may change the state \<open>'s\<close> of client and device. A builtin
  gives \<open>None\<close> where Python raises \<^verbatim>\<open>ValueError\<close>.
\<close>

record 's env =
  read_holding_registers :: "'s \<Rightarrow> int \<Rightarrow> int \<Rightarrow> int list option \<times> 's"
  write_registers :: "'s \<Rightarrow> int \<Rightarrow> int list \<Rightarrow> bool \<times> 's"
  py_int :: "string \<Rightarrow> int option"
  py_float :: "string \<Rightarrow> float32 option"

datatype call = ReadCall int int | WriteCall int "int list"

text \<open>The lines the module prints, with the values of their placeholders.\<close>

datatype out =
    Prompt string
  | Print_value string int pyvalue string
  | Print_failed_to_read string int
  | Print_available
  | Print_register string string int string
  | Print_invalid_key
  | Print_updated string pyvalue string
  | Print_failed_to_update
  | Print_updated_heating int int
  | Print_invalid_input

text \<open>The records of the log file: \<^verbatim>\<open>logging.info\<close> and \<^verbatim>\<open>logging.error\<close>.\<close>

datatype log =
    Error_reading int
  | Info_writing int "int list"
  | Error_writing int
  | Info_value string int pyvalue string
  | Error_failed_to_read string int
  | Info_updated string pyvalue string
  | Info_updated_heating int int

text \<open>
  The state a function runs in: the client and the device behind it, the trace of the
  calls made on the client (oldest first), the lines still to come on standard input,
  and what was printed and logged so far.
\<close>

record 's world =
  device :: 's
  calls :: "call list"
  stdin :: "string list"
  stdout :: "out list"
  logfile :: "log list"

definition print_line :: "out \<Rightarrow> 's world \<Rightarrow> 's world" where
  "print_line l w = w\<lparr>stdout := stdout w @ [l]\<rparr>"

definition logging :: "log \<Rightarrow> 's world \<Rightarrow> 's world" where
  "logging l w = w\<lparr>logfile := logfile w @ [l]\<rparr>"

text \<open>\<^verbatim>\<open>input(prompt)\<close>: prints the prompt, then takes a line, or raises at end of input.\<close>

definition input :: "string \<Rightarrow> 's world \<Rightarrow> (error + string) \<times> 's world" where
  "input prompt w =
    (let w1 = print_line (Prompt prompt) w in
     case stdin w1 of
       [] \<Rightarrow> (Inl EOFError, w1)
     | l # ls \<Rightarrow> (Inr l, w1\<lparr>stdin := ls\<rparr>))"

definition client_read :: "'s env \<Rightarrow> int \<Rightarrow> int \<Rightarrow> 's world \<Rightarrow> int list option \<times> 's world" where
  "client_read env a n w =
    (let (response, d) = read_holding_registers env (device w) a n in
     (response, w\<lparr>device := d, calls := calls w @ [ReadCall a n]\<rparr>))"

definition client_write :: "'s env \<Rightarrow> int \<Rightarrow> int list \<Rightarrow> 's world \<Rightarrow> bool \<times> 's world" where
  "client_write env a vs w =
    (let (is_error, d) = write_registers env (device w) a vs in
     (is_error, w\<lparr>device := d, calls := calls w @ [WriteCall a vs]\<rparr>))"

section \<open>The struct formats\<close>

text \<open>\<^verbatim>\<open>struct.pack('>HH', a, b)\<close>: each argument must be in 0..65535, else \<^verbatim>\<open>struct.error\<close>.\<close>

definition pack_HH :: "int \<Rightarrow> int \<Rightarrow> error + bytes4" where
  "pack_HH a b =
    (if 0 \<le> a \<and> a \<le> 65535 \<and> 0 \<le> b \<and> b \<le> 65535
     then Inr (word_of_int (a div 256), word_of_int (a mod 256),
               word_of_int (b div 256), word_of_int (b mod 256))
     else Inl StructError)"

definition unpack_HH :: "bytes4 \<Rightarrow> int \<times> int" where
  "unpack_HH bs =
    (case bs of (b0, b1, b2, b3) \<Rightarrow> (uint b0 * 256 + uint b1, uint b2 * 256 + uint b3))"

text \<open>\<^verbatim>\<open>struct.pack('>f', x)\<close> on a binary32 value: its bit pattern, most significant byte first.\<close>

definition pack_f :: "float32 \<Rightarrow> bytes4" where
  "pack_f x = (ucast (drop_bit 24 x), ucast (drop_bit 16 x), ucast (drop_bit 8 x), ucast x)"

definition unpack_f :: "bytes4 \<Rightarrow> float32" where
  "unpack_f bs =
    (case bs of (b0, b1, b2, b3) \<Rightarrow>
       push_bit 24 (ucast b0) OR push_bit 16 (ucast b1) OR push_bit 8 (ucast b2) OR ucast b3)"

section \<open>Reading and writing a register pair\<close>

definition read_float :: "'s env \<Rightarrow> int \<Rightarrow> int \<Rightarrow> 's world \<Rightarrow> (error + float32 option) \<times> 's world" where
  "read_float env addr len w =
    (case client_read env addr len w of
       (None, w1) \<Rightarrow> (Inr None, logging (Error_reading addr) w1)
     | (Some raw_value, w1) \<Rightarrow>
         (case raw_value of
            r0 # r1 # _ \<Rightarrow>
              (case pack_HH r0 r1 of
                 Inl e \<Rightarrow> (Inl e, w1)
               | Inr byte_string \<Rightarrow> (Inr (Some (unpack_f byte_string)), w1))
          | _ \<Rightarrow> (Inl IndexError, w1)))"

definition read_uint32 :: "'s env \<Rightarrow> int \<Rightarrow> int \<Rightarrow> 's world \<Rightarrow> (error + int option) \<times> 's world" where
  "read_uint32 env addr len w =
    (case client_read env addr len w of
       (None, w1) \<Rightarrow> (Inr None, logging (Error_reading addr) w1)
     | (Some rs, w1) \<Rightarrow>
         (case rs of
            r0 # r1 # _ \<Rightarrow> (Inr (Some (push_bit 16 r0 OR r1)), w1)
          | _ \<Rightarrow> (Inl IndexError, w1)))"

definition write_float :: "'s env \<Rightarrow> int \<Rightarrow> float32 \<Rightarrow> 's world \<Rightarrow> bool \<times> 's world" where
  "write_float env addr v w =
    (let byte_string = pack_f v;
         (h0, h1) = unpack_HH byte_string;
         register_values = [h0, h1];
         w1 = logging (Info_writing addr register_values) w;
         (is_error, w2) = client_write env addr register_values w1
     in if is_error then (False, logging (Error_writing addr) w2) else (True, w2))"

definition write_uint32 :: "'s env \<Rightarrow> int \<Rightarrow> int \<Rightarrow> 's world \<Rightarrow> bool \<times> 's world" where
  "write_uint32 env addr v w =
    (let register_values = [drop_bit 16 v AND 0xFFFF, v AND 0xFFFF];
         w1 = logging (Info_writing addr register_values) w;
         (is_error, w2) = client_write env addr register_values w1
     in if is_error then (False, logging (Error_writing addr) w2) else (True, w2))"

section \<open>Monitoring: \<^verbatim>\<open>read_all_values\<close>\<close>

text \<open>The read of one register by its type, lines 64 to 67 of the loop body.\<close>

definition read_value :: "'s env \<Rightarrow> reg \<Rightarrow> 's world \<Rightarrow> (error + pyvalue option) \<times> 's world" where
  "read_value env reg w =
    (case rtype reg of
       Float \<Rightarrow>
         (case read_float env (address reg) (rlength reg) w of
            (Inl e, w1) \<Rightarrow> (Inl e, w1)
          | (Inr None, w1) \<Rightarrow> (Inr None, w1)
          | (Inr (Some x), w1) \<Rightarrow> (Inr (Some (FloatV x)), w1))
     | UInt32 \<Rightarrow>
         (case read_uint32 env (address reg) (rlength reg) w of
            (Inl e, w1) \<Rightarrow> (Inl e, w1)
          | (Inr None, w1) \<Rightarrow> (Inr None, w1)
          | (Inr (Some x), w1) \<Rightarrow> (Inr (Some (IntV x)), w1)))"

text \<open>
  The \<^verbatim>\<open>for\<close> loop over the items of the register map. An exception leaves the loop;
  a read that returned \<^verbatim>\<open>None\<close> is reported and the loop goes on.
\<close>

fun read_all_values_loop :: "'s env \<Rightarrow> (string \<times> reg) list \<Rightarrow> 's world \<Rightarrow> (error + unit) \<times> 's world" where
  "read_all_values_loop env [] w = (Inr (), w)"
| "read_all_values_loop env ((key, reg) # rest) w =
    (if access reg = R \<or> access reg = RW then
       (case read_value env reg w of
          (Inl e, w1) \<Rightarrow> (Inl e, w1)
        | (Inr (Some v), w1) \<Rightarrow>
            read_all_values_loop env rest
              (logging (Info_value (description reg) (address reg) v (unit_str reg))
                (print_line (Print_value (description reg) (address reg) v (unit_str reg)) w1))
        | (Inr None, w1) \<Rightarrow>
            read_all_values_loop env rest
              (logging (Error_failed_to_read (description reg) (address reg))
                (print_line (Print_failed_to_read (description reg) (address reg)) w1)))
     else read_all_values_loop env rest w)"


section \<open>Editing: \<^verbatim>\<open>change_value\<close>\<close>

text \<open>The listing of the writable registers, lines 78 to 81.\<close>

fun print_available :: "(string \<times> reg) list \<Rightarrow> 's world \<Rightarrow> 's world" where
  "print_available [] w = w"
| "print_available ((key, reg) # rest) w =
    (if access reg = RW
     then print_available rest
            (print_line (Print_register key (description reg) (address reg) (unit_str reg)) w)
     else print_available rest w)"

text \<open>What is printed and logged after the write, lines 102 to 106.\<close>

definition report_update :: "bool \<Rightarrow> reg \<Rightarrow> pyvalue \<Rightarrow> 's world \<Rightarrow> 's world" where
  "report_update success reg new_value w =
    (if success
     then print_line (Print_updated (description reg) new_value (unit_str reg))
            (logging (Info_updated (description reg) new_value (unit_str reg)) w)
     else print_line Print_failed_to_update w)"

text \<open>
  One round of the \<^verbatim>\<open>while True\<close> loop, lines 84 to 106. The result says whether the
  loop goes on: \<open>Inr False\<close> is the \<^verbatim>\<open>break\<close>, \<open>Inl e\<close> an exception, which nothing
  in \<^verbatim>\<open>change_value\<close> catches.
\<close>

definition change_value_step :: "'s env \<Rightarrow> 's world \<Rightarrow> (error + bool) \<times> 's world" where
  "change_value_step env w =
    (case input (CHR 0x0A # ''Enter the register key to modify (or 'q' to quit): '') w of
       (Inl e, w1) \<Rightarrow> (Inl e, w1)
     | (Inr reg_key, w1) \<Rightarrow>
         if reg_key = ''q'' then (Inr False, w1)
         else
           (case map_of registers reg_key of
              None \<Rightarrow> (Inr True, print_line Print_invalid_key w1)
            | Some reg \<Rightarrow>
                if access reg \<noteq> RW then (Inr True, print_line Print_invalid_key w1)
                else
                  (case input (''Enter new value for '' @ reg_key @ '' ('' @ unit_str reg @ ''): '') w1 of
                     (Inl e, w2) \<Rightarrow> (Inl e, w2)
                   | (Inr s, w2) \<Rightarrow>
                       (case rtype reg of
                          Float \<Rightarrow>
                            (case py_float env s of
                               None \<Rightarrow> (Inl ValueError, w2)
                             | Some new_value \<Rightarrow>
                                 (case write_float env (address reg) new_value w2 of
                                    (success, w3) \<Rightarrow>
                                      (Inr True, report_update success reg (FloatV new_value) w3)))
                        | UInt32 \<Rightarrow>
                            (case py_int env s of
                               None \<Rightarrow> (Inl ValueError, w2)
                             | Some new_value \<Rightarrow>
                                 (case write_uint32 env (address reg) new_value w2 of
                                    (success, w3) \<Rightarrow>
                                      (Inr True, report_update success reg (IntV new_value) w3)))))))"

text \<open>Every round that goes on has taken a line of standard input: the loop ends.\<close>

lemma stdin_print_line: "stdin (print_line l w) = stdin w"
  by (simp add: print_line_def)

lemma stdin_logging: "stdin (logging l w) = stdin w"
  by (simp add: logging_def)

lemma stdin_client_write: "client_write env a vs w = (r, w1) \<Longrightarrow> stdin w1 = stdin w"
  by (auto simp add: client_write_def split: prod.splits)

lemma stdin_write_uint32: "write_uint32 env a v w = (r, w1) \<Longrightarrow> stdin w1 = stdin w"
  by (auto simp add: write_uint32_def Let_def stdin_logging split: prod.splits if_splits
       dest!: stdin_client_write)

lemma stdin_write_float: "write_float env a v w = (r, w1) \<Longrightarrow> stdin w1 = stdin w"
  by (auto simp add: write_float_def Let_def stdin_logging split: prod.splits if_splits
       dest!: stdin_client_write)

lemma stdin_report_update: "stdin (report_update b r v w) = stdin w"
  by (simp add: report_update_def stdin_logging stdin_print_line)

lemma input_takes_a_line: "input p w = (Inr l, w1) \<Longrightarrow> length (stdin w1) < length (stdin w)"
  by (auto simp: input_def Let_def print_line_def split: list.splits)

lemma change_value_step_decreases:
  "change_value_step env w = (Inr True, w1) \<Longrightarrow> length (stdin w1) < length (stdin w)"
  unfolding change_value_step_def
  by (auto split: prod.splits sum.splits if_splits option.splits reg_type.splits
       dest!: input_takes_a_line stdin_write_uint32 stdin_write_float
       simp: stdin_print_line stdin_report_update)

function change_value_loop :: "'s env \<Rightarrow> 's world \<Rightarrow> (error + unit) \<times> 's world" where
  "change_value_loop env w =
    (case change_value_step env w of
       (Inl e, w1) \<Rightarrow> (Inl e, w1)
     | (Inr False, w1) \<Rightarrow> (Inr (), w1)
     | (Inr True, w1) \<Rightarrow> change_value_loop env w1)"
  by pat_completeness auto
termination
  by (relation "measure (\<lambda>(env, w). length (stdin w))")
     (auto dest: change_value_step_decreases [OF sym])

definition change_value :: "'s env \<Rightarrow> 's world \<Rightarrow> (error + unit) \<times> 's world" where
  "change_value env w =
    change_value_loop env (print_available registers (print_line Print_available w))"

section \<open>The heating: \<^verbatim>\<open>control_heating\<close>\<close>

text \<open>
  Both numbers are read and parsed before anything is written. The \<^verbatim>\<open>try\<close> catches the
  \<^verbatim>\<open>ValueError\<close> of \<^verbatim>\<open>int\<close> and nothing else. The \<^verbatim>\<open>and\<close> of line 113 evaluates its
  right operand, the write of the state, only when the write of the power returned
  \<^verbatim>\<open>True\<close>; each register is looked up right before its write.
\<close>

definition control_heating :: "'s env \<Rightarrow> 's world \<Rightarrow> (error + unit) \<times> 's world" where
  "control_heating env w =
    (case input ''Enter target heating power (W): '' w of
       (Inl e, w1) \<Rightarrow> (Inl e, w1)
     | (Inr s1, w1) \<Rightarrow>
         (case py_int env s1 of
            None \<Rightarrow> (Inr (), print_line Print_invalid_input w1)
          | Some target_power \<Rightarrow>
              (case input ''Enter system state (e.g., 1 to turn on, 0 to turn off): '' w1 of
                 (Inl e, w2) \<Rightarrow> (Inl e, w2)
               | (Inr s2, w2) \<Rightarrow>
                   (case py_int env s2 of
                      None \<Rightarrow> (Inr (), print_line Print_invalid_input w2)
                    | Some system_state \<Rightarrow>
                        (case map_of registers ''spp'' of
                           None \<Rightarrow> (Inl KeyError, w2)
                         | Some spp \<Rightarrow>
                             (case write_uint32 env (address spp) target_power w2 of
                                (False, w3) \<Rightarrow> (Inr (), w3)
                              | (True, w3) \<Rightarrow>
                                  (case map_of registers ''state'' of
                                     None \<Rightarrow> (Inl KeyError, w3)
                                   | Some state \<Rightarrow>
                                       (case write_uint32 env (address state) system_state w3 of
                                          (False, w4) \<Rightarrow> (Inr (), w4)
                                        | (True, w4) \<Rightarrow>
                                            (Inr (),
                                             print_line (Print_updated_heating target_power system_state)
                                               (logging (Info_updated_heating target_power system_state)
                                                  w4))))))))))"

section \<open>A simulated device, for runs on concrete inputs\<close>

text \<open>
  Holding registers as a memory from address to word. A read or a write at an address
  of the given set answers with an error response and leaves the memory as it is; any
  other write stores its words from the address on, any other read fetches them.
\<close>

fun store :: "(int \<Rightarrow> int) \<Rightarrow> int \<Rightarrow> int list \<Rightarrow> (int \<Rightarrow> int)" where
  "store m a [] = m"
| "store m a (v # vs) = store (m(a := v)) (a + 1) vs"

fun fetch :: "(int \<Rightarrow> int) \<Rightarrow> int \<Rightarrow> nat \<Rightarrow> int list" where
  "fetch m a 0 = []"
| "fetch m a (Suc k) = m a # fetch m (a + 1) k"

text \<open>Stand-ins for the builtins: decimal numerals with an optional minus sign, and two float literals.\<close>

fun dec_digits :: "string \<Rightarrow> int \<Rightarrow> int option" where
  "dec_digits [] acc = Some acc"
| "dec_digits (c # cs) acc =
    (if c \<in> set ''0123456789''
     then dec_digits cs (10 * acc + (of_char c - 48))
     else None)"

definition dec_int :: "string \<Rightarrow> int option" where
  "dec_int s =
    (case s of
       [] \<Rightarrow> None
     | c # cs \<Rightarrow>
         if c = CHR ''-'' then (if cs = [] then None else map_option uminus (dec_digits cs 0))
         else dec_digits s 0)"

definition two_floats :: "string \<Rightarrow> float32 option" where
  "two_floats s =
    (if s = ''36.6'' then Some 0x42126666 else if s = ''1.5'' then Some 0x3FC00000 else None)"

definition sim_env :: "int set \<Rightarrow> int set \<Rightarrow> (int \<Rightarrow> int) env" where
  "sim_env bad_reads bad_writes =
    \<lparr>read_holding_registers =
       (\<lambda>m a n. if a \<in> bad_reads then (None, m) else (Some (fetch m a (nat n)), m)),
     write_registers =
       (\<lambda>m a vs. if a \<in> bad_writes then (True, m) else (False, store m a vs)),
     py_int = dec_int,
     py_float = two_floats\<rparr>"

text \<open>A client that answers every read with the same list of words.\<close>

definition fixed_env :: "int list \<Rightarrow> unit env" where
  "fixed_env rs =
    \<lparr>read_holding_registers = (\<lambda>d a n. (Some rs, d)),
     write_registers = (\<lambda>d a vs. (False, d)),
     py_int = dec_int,
     py_float = two_floats\<rparr>"

definition start :: "string list \<Rightarrow> 's \<Rightarrow> 's world" where
  "start lines d = \<lparr>device = d, calls = [], stdin = lines, stdout = [], logfile = []\<rparr>"

section \<open>The two words of a 32-bit value\<close>

lemma mask16: "(0xFFFF :: int) = mask 16"
  by (simp add: mask_eq_exp_minus_1)

lemma words_roundtrip:
  fixes v :: int
  assumes "0 \<le> v" "v < 2 ^ 32"
  shows "push_bit 16 (drop_bit 16 v AND 0xFFFF) OR (v AND 0xFFFF) = v"
proof -
  have "take_bit 32 v = v" using assms by (simp add: take_bit_int_eq_self)
  moreover have "push_bit 16 (drop_bit 16 v AND mask 16) OR (v AND mask 16) = take_bit 32 v"
    by (rule bit_eqI) (auto simp: bit_simps)
  ultimately show ?thesis by (simp add: mask16)
qed

lemma low_word: "(v :: int) AND 0xFFFF = v mod 65536"
  by (simp add: mask16 take_bit_eq_mask [symmetric] take_bit_eq_mod)

lemma words_mod:
  fixes v :: int
  shows "65536 * (drop_bit 16 v AND 0xFFFF) + (v AND 0xFFFF) = v mod 2 ^ 32"
proof -
  have "65536 * (v div 65536 mod 65536) + v mod 65536 = v mod 2 ^ 32"
    using zmod_zmult2_eq [of 65536 v 65536] by simp
  then show ?thesis by (simp only: low_word drop_bit_eq_div) simp
qed

lemma words_of_mod:
  fixes v :: int
  shows "drop_bit 16 (v mod 2 ^ 32) AND 0xFFFF = drop_bit 16 v AND 0xFFFF"
    and "(v mod 2 ^ 32) AND 0xFFFF = v AND 0xFFFF"
proof -
  have "drop_bit 16 (take_bit 32 v) AND mask 16 = drop_bit 16 v AND mask 16"
    by (rule bit_eqI) (auto simp: bit_simps)
  then show "drop_bit 16 (v mod 2 ^ 32) AND 0xFFFF = drop_bit 16 v AND 0xFFFF"
    by (simp add: mask16 take_bit_eq_mod)
  have "take_bit 32 v AND mask 16 = v AND mask 16"
    by (rule bit_eqI) (auto simp: bit_simps)
  then show "(v mod 2 ^ 32) AND 0xFFFF = v AND 0xFFFF"
    by (simp add: mask16 take_bit_eq_mod)
qed

lemma write_uint32_run:
  assumes "write_registers env (device w) a [drop_bit 16 v AND 0xFFFF, v AND 0xFFFF] = (e, d)"
  shows "write_uint32 env a v w =
    (\<not> e, w\<lparr>device := d,
             calls := calls w @ [WriteCall a [drop_bit 16 v AND 0xFFFF, v AND 0xFFFF]],
             logfile := logfile w @ Info_writing a [drop_bit 16 v AND 0xFFFF, v AND 0xFFFF]
                          # (if e then [Error_writing a] else [])\<rparr>)"
  using assms by (simp add: write_uint32_def client_write_def logging_def Let_def)

lemma read_uint32_run:
  assumes "read_holding_registers env (device w) a n = (Some (r0 # r1 # rest), d)"
  shows "read_uint32 env a n w =
    (Inr (Some (push_bit 16 r0 OR r1)), w\<lparr>device := d, calls := calls w @ [ReadCall a n]\<rparr>)"
  using assms by (simp add: read_uint32_def client_read_def)

text \<open>
  Claim C1. For every integer \<open>v\<close> from 0 to \<open>2^32 - 1\<close>, \<^verbatim>\<open>write_uint32\<close> hands
  the client the two words \<open>[(v >> 16) & 0xFFFF, v & 0xFFFF]\<close>, and \<^verbatim>\<open>read_uint32\<close>,
  on any client that answers a read with these two words, returns \<open>v\<close> again.
\<close>

theorem uint32_roundtrip:
  "0 \<le> v \<Longrightarrow> v < 2 ^ 32 \<Longrightarrow>
   calls (snd (write_uint32 env a v w)) =
     calls w @ [WriteCall a [drop_bit 16 v AND 0xFFFF, v AND 0xFFFF]] \<and>
   (\<forall>env' w' n d. read_holding_registers env' (device w') a n =
        (Some [drop_bit 16 v AND 0xFFFF, v AND 0xFFFF], d) \<longrightarrow>
      fst (read_uint32 env' a n w') = Inr (Some v))"
proof (intro conjI allI impI)
  obtain e d where "write_registers env (device w) a [drop_bit 16 v AND 0xFFFF, v AND 0xFFFF] = (e, d)"
    by (cases "write_registers env (device w) a [drop_bit 16 v AND 0xFFFF, v AND 0xFFFF]")
  then show "calls (snd (write_uint32 env a v w)) =
     calls w @ [WriteCall a [drop_bit 16 v AND 0xFFFF, v AND 0xFFFF]]"
    by (simp only: write_uint32_run snd_conv) simp
next
  fix env' :: "'b env" and w' :: "'b world" and n d
  assume v: "0 \<le> v" "v < 2 ^ 32"
    and "read_holding_registers env' (device w') a n =
        (Some [drop_bit 16 v AND 0xFFFF, v AND 0xFFFF], d)"
  then show "fst (read_uint32 env' a n w') = Inr (Some v)"
    by (simp only: read_uint32_run fst_conv words_roundtrip [OF v])
qed

theorem uint32_roundtrip_witness:
  "(0::int) \<le> 305419896 \<and> (305419896::int) < 2 ^ 32 \<and>
   calls (snd (write_uint32 (sim_env {} {}) 30 305419896 (start [] (\<lambda>a. 0)))) =
     [WriteCall 30 [4660, 22136]] \<and>
   fst (read_uint32 (sim_env {} {}) 30 2
         (snd (write_uint32 (sim_env {} {}) 30 305419896 (start [] (\<lambda>a. 0))))) =
     Inr (Some 305419896)"
proof -
  let ?w = "snd (write_uint32 (sim_env {} {}) 30 305419896 (start [] (\<lambda>a. 0)))"
  have v: "(0::int) \<le> 305419896" "(305419896::int) < 2 ^ 32" by simp_all
  note t = uint32_roundtrip [OF v, where env = "sim_env {} {}" and a = 30
      and w = "start [] (\<lambda>a. 0)"]
  have r: "read_holding_registers (sim_env {} {}) (device ?w) 30 2 =
      (Some [drop_bit 16 305419896 AND 0xFFFF, 305419896 AND 0xFFFF], device ?w)"
    by (simp add: sim_env_def start_def write_uint32_def client_write_def logging_def
        Let_def eval_nat_numeral)
  have "fst (read_uint32 (sim_env {} {}) 30 2 ?w) = Inr (Some 305419896)"
    using t [THEN conjunct2, rule_format, OF r] .
  moreover have "calls ?w = [WriteCall 30 [4660, 22136]]"
    using t [THEN conjunct1] by (simp add: start_def)
  ultimately show ?thesis by simp
qed

section \<open>Values outside the range of 32 bits\<close>

lemma word_bounds:
  fixes v :: int
  shows "0 \<le> v AND 0xFFFF" "v AND 0xFFFF \<le> 0xFFFF"
  by (simp_all add: low_word) 

text \<open>
  Claim C9. For every integer \<open>v\<close>, negative or from \<open>2^32\<close> on included,
  \<^verbatim>\<open>write_uint32\<close> hands the client the two words \<open>[(v >> 16) & 0xFFFF, v & 0xFFFF]\<close>.
  Both are in 0..65535, together they are \<open>v\<close> modulo \<open>2^32\<close>, and the function
  rejects no value: what it returns is what the client answered.
\<close>

theorem write_uint32_words_mod:
  "calls (snd (write_uint32 env a v w)) =
     calls w @ [WriteCall a [drop_bit 16 v AND 0xFFFF, v AND 0xFFFF]] \<and>
   0 \<le> drop_bit 16 v AND 0xFFFF \<and> drop_bit 16 v AND 0xFFFF \<le> 0xFFFF \<and>
   0 \<le> v AND 0xFFFF \<and> v AND 0xFFFF \<le> 0xFFFF \<and>
   65536 * (drop_bit 16 v AND 0xFFFF) + (v AND 0xFFFF) = v mod 2 ^ 32 \<and>
   fst (write_uint32 env a v w) =
     (\<not> fst (write_registers env (device w) a [drop_bit 16 v AND 0xFFFF, v AND 0xFFFF]))"
proof -
  obtain e d where r: "write_registers env (device w) a [drop_bit 16 v AND 0xFFFF, v AND 0xFFFF] = (e, d)"
    by (cases "write_registers env (device w) a [drop_bit 16 v AND 0xFFFF, v AND 0xFFFF]")
  have 1: "calls (snd (write_uint32 env a v w)) =
     calls w @ [WriteCall a [drop_bit 16 v AND 0xFFFF, v AND 0xFFFF]]"
    by (simp only: write_uint32_run [OF r] snd_conv) simp
  have 2: "fst (write_uint32 env a v w) =
     (\<not> fst (write_registers env (device w) a [drop_bit 16 v AND 0xFFFF, v AND 0xFFFF]))"
    by (simp only: write_uint32_run [OF r] r fst_conv)
  show ?thesis
    using 1 2 word_bounds [of v] word_bounds [of "drop_bit 16 v"] words_mod [of v]
    by (intro conjI)
qed

theorem write_uint32_words_mod_witness:
  "calls (snd (write_uint32 (sim_env {} {}) 36 (- 1) (start [] (\<lambda>a. 0)))) =
     [WriteCall 36 [65535, 65535]] \<and>
   fst (write_uint32 (sim_env {} {}) 36 (- 1) (start [] (\<lambda>a. 0))) \<and>
   65536 * 65535 + 65535 = (- 1 :: int) mod 2 ^ 32"
  using write_uint32_words_mod [of "sim_env {} {}" 36 "- 1" "start [] (\<lambda>a. 0)"]
  by (simp add: start_def sim_env_def)

text \<open>
  Claim C4, as the specification states it, says that encoding \<open>-1\<close> or \<open>2^32\<close> fails
  and produces no words. On a device that accepts every write, \<^verbatim>\<open>write_uint32\<close>
  returns \<^verbatim>\<open>True\<close> for both and has written \<open>[65535, 65535]\<close> and \<open>[0, 0]\<close>.
\<close>

theorem write_uint32_out_of_range_counterexample:
  "write_uint32 (sim_env {} {}) 30 (- 1) (start [] (\<lambda>a. 0)) =
     (True, \<lparr>device = (\<lambda>a. 0)(30 := 65535, 31 := 65535),
             calls = [WriteCall 30 [65535, 65535]], stdin = [], stdout = [],
             logfile = [Info_writing 30 [65535, 65535]]\<rparr>) \<and>
   write_uint32 (sim_env {} {}) 30 (2 ^ 32) (start [] (\<lambda>a. 0)) =
     (True, \<lparr>device = (\<lambda>a. 0)(30 := 0, 31 := 0),
             calls = [WriteCall 30 [0, 0]], stdin = [], stdout = [],
             logfile = [Info_writing 30 [0, 0]]\<rparr>)"
  by (simp add: write_uint32_def client_write_def logging_def sim_env_def start_def Let_def)

text \<open>
  Claim C4, amended. The module has no range check and no error of that kind: a value
  outside 0..\<open>2^32 - 1\<close> is written as the two words of its residue modulo \<open>2^32\<close>,
  and the write succeeds when the client accepts it.
\<close>

theorem write_uint32_out_of_range:
  "v < 0 \<or> 2 ^ 32 \<le> v \<Longrightarrow>
   write_registers env (device w) a [drop_bit 16 v AND 0xFFFF, v AND 0xFFFF] = (False, d) \<Longrightarrow>
   fst (write_uint32 env a v w) = True \<and>
   calls (snd (write_uint32 env a v w)) =
     calls w @ [WriteCall a [drop_bit 16 (v mod 2 ^ 32) AND 0xFFFF, (v mod 2 ^ 32) AND 0xFFFF]] \<and>
   0 \<le> v mod 2 ^ 32 \<and> v mod 2 ^ 32 < 2 ^ 32"
  by (simp only: words_of_mod write_uint32_run fst_conv snd_conv) simp

theorem write_uint32_out_of_range_witness:
  "((2 ^ 32 + 5 :: int) < 0 \<or> (2 :: int) ^ 32 \<le> 2 ^ 32 + 5) \<and>
   fst (write_uint32 (sim_env {} {}) 30 (2 ^ 32 + 5) (start [] (\<lambda>a. 0))) = True \<and>
   calls (snd (write_uint32 (sim_env {} {}) 30 (2 ^ 32 + 5) (start [] (\<lambda>a. 0)))) =
     [WriteCall 30 [0, 5]]"
proof -
  have v: "(2 ^ 32 + 5 :: int) < 0 \<or> (2 :: int) ^ 32 \<le> 2 ^ 32 + 5" by simp
  have r: "write_registers (sim_env {} {}) (device (start [] (\<lambda>a. 0))) 30
       [drop_bit 16 (2 ^ 32 + 5) AND 0xFFFF, (2 ^ 32 + 5) AND 0xFFFF] =
     (False, store (\<lambda>a. 0) 30 [drop_bit 16 (2 ^ 32 + 5) AND 0xFFFF, (2 ^ 32 + 5) AND 0xFFFF])"
    by (simp add: sim_env_def start_def)
  show ?thesis
    using write_uint32_out_of_range [OF v r] by (simp add: start_def)
qed

section \<open>The two words of a float\<close>

lemma pack_unpack_f: "unpack_f (pack_f x) = x"
  unfolding unpack_f_def pack_f_def
  apply simp
  apply (rule bit_word_eqI)
  apply (auto simp: bit_simps)
   apply (case_tac "16 \<le> n"; simp)
   apply (case_tac "16 \<le> n"; simp)
  done

lemma uint_byte: "uint (b :: 8 word) < 256" "0 \<le> uint b"
  using uint_bounded [of b] by simp_all

lemma pack_unpack_HH: "unpack_HH bs = (h0, h1) \<Longrightarrow> pack_HH h0 h1 = Inr bs"
  apply (cases bs)
  apply (clarsimp simp: unpack_HH_def pack_HH_def)
  subgoal for b0 b1 b2 b3
  using uint_byte [of b0] uint_byte [of b1] uint_byte [of b2] uint_byte [of b3]
  apply (simp)
  done
  done

lemma unpack_HH_pack_f: "unpack_HH (pack_f x) = (uint (drop_bit 16 x), uint (x AND 0xFFFF))"
proof -
  have m: "(0xFFFF :: 32 word) = mask 16" by (simp add: mask_eq_exp_minus_1)
  define X where "X = uint x"
  have X: "0 \<le> X" "X < 2 ^ 32" using uint_bounded [of x] by (simp_all add: X_def)
  have xm: "X mod 4294967296 = X" using X by simp
  define Y where "Y = X div 65536"
  have "0 \<le> X div 16777216" "X div 16777216 < 256" using X by simp_all
  then have xd: "X div 16777216 mod 256 = X div 16777216" by simp
  have b0: "uint (ucast (drop_bit 24 x) :: 8 word) = X div 16777216"
    by (simp only: unsigned_ucast_eq unsigned_drop_bit_eq X_def [symmetric])
       (simp add: take_bit_eq_mod drop_bit_eq_div xm xd)
  have b1: "uint (ucast (drop_bit 16 x) :: 8 word) = Y mod 256"
    by (simp only: unsigned_ucast_eq unsigned_drop_bit_eq X_def [symmetric])
       (simp add: Y_def take_bit_eq_mod drop_bit_eq_div xm)
  have b2: "uint (ucast (drop_bit 8 x) :: 8 word) = X div 256 mod 256"
    by (simp only: unsigned_ucast_eq unsigned_drop_bit_eq X_def [symmetric])
       (simp add: take_bit_eq_mod drop_bit_eq_div xm)
  have b3: "uint (ucast x :: 8 word) = X mod 256"
    by (simp only: unsigned_ucast_eq X_def [symmetric]) (simp add: take_bit_eq_mod)
  have hi: "uint (drop_bit 16 x) = Y"
    by (simp only: unsigned_drop_bit_eq X_def [symmetric])
       (simp add: Y_def take_bit_eq_mod drop_bit_eq_div xm)
  have lo: "uint (x AND 0xFFFF) = X mod 65536"
    by (simp only: m take_bit_eq_mask [symmetric] unsigned_take_bit_eq X_def [symmetric])
       (simp add: take_bit_eq_mod)
  have "Y div 256 = X div 16777216"
    using zdiv_zmult2_eq [of 256 X 65536] by (simp add: Y_def)
  then have h0: "X div 16777216 * 256 + Y mod 256 = Y"
    using div_mult_mod_eq [of Y 256] by simp
  have h1: "X div 256 mod 256 * 256 + X mod 256 = X mod 65536"
    using zmod_zmult2_eq [of 256 X 256] by simp
  show ?thesis
    by (simp only: unpack_HH_def pack_f_def prod.case b0 b1 b2 b3 hi lo h0 h1)
qed

lemma write_float_run:
  assumes "unpack_HH (pack_f x) = (h0, h1)"
    and "write_registers env (device w) a [h0, h1] = (e, d)"
  shows "write_float env a x w =
    (\<not> e, w\<lparr>device := d,
             calls := calls w @ [WriteCall a [h0, h1]],
             logfile := logfile w @ Info_writing a [h0, h1]
                          # (if e then [Error_writing a] else [])\<rparr>)"
  using assms by (simp add: write_float_def client_write_def logging_def Let_def)

lemma read_float_run:
  assumes "read_holding_registers env (device w) a n = (Some (r0 # r1 # rest), d)"
  shows "read_float env a n w =
    (case pack_HH r0 r1 of Inl e \<Rightarrow> Inl e | Inr bs \<Rightarrow> Inr (Some (unpack_f bs)),
     w\<lparr>device := d, calls := calls w @ [ReadCall a n]\<rparr>)"
  using assms by (simp add: read_float_def client_read_def split: sum.splits)

lemma read_short_run:
  assumes "read_holding_registers env (device w) a n = (Some rs, d)" and "length rs < 2"
  shows "read_uint32 env a n w = (Inl IndexError, w\<lparr>device := d, calls := calls w @ [ReadCall a n]\<rparr>)"
    and "read_float env a n w = (Inl IndexError, w\<lparr>device := d, calls := calls w @ [ReadCall a n]\<rparr>)"
  using assms by (auto simp add: read_float_def read_uint32_def client_read_def split: list.splits)

text \<open>
  Claim C2. For every finite binary32 value \<open>f\<close>, \<^verbatim>\<open>write_float\<close> hands the client two
  words, the upper half of the bit pattern of \<open>f\<close> first and the lower half second, and
  \<^verbatim>\<open>read_float\<close>, on any client that answers a read with these two words, returns \<open>f\<close>
  with the same bit pattern: both directions use the same word order.
\<close>

theorem float32_roundtrip:
  "is_finite32 f \<Longrightarrow>
   calls (snd (write_float env a f w)) =
     calls w @ [WriteCall a [uint (drop_bit 16 f), uint (f AND 0xFFFF)]] \<and>
   (\<forall>env' w' n d. read_holding_registers env' (device w') a n =
        (Some [uint (drop_bit 16 f), uint (f AND 0xFFFF)], d) \<longrightarrow>
      fst (read_float env' a n w') = Inr (Some f))"
proof (intro conjI allI impI)
  obtain e d where "write_registers env (device w) a [uint (drop_bit 16 f), uint (f AND 0xFFFF)] = (e, d)"
    by (cases "write_registers env (device w) a [uint (drop_bit 16 f), uint (f AND 0xFFFF)]")
  then show "calls (snd (write_float env a f w)) =
     calls w @ [WriteCall a [uint (drop_bit 16 f), uint (f AND 0xFFFF)]]"
    by (simp only: write_float_run [OF unpack_HH_pack_f] snd_conv) simp
next
  fix env' :: "'b env" and w' :: "'b world" and n d
  assume "read_holding_registers env' (device w') a n =
        (Some [uint (drop_bit 16 f), uint (f AND 0xFFFF)], d)"
  then show "fst (read_float env' a n w') = Inr (Some f)"
    by (simp only: read_float_run fst_conv pack_unpack_HH [OF unpack_HH_pack_f]
        sum.case pack_unpack_f)
qed

theorem float32_roundtrip_witness:
  "is_finite32 0x42126666 \<and>
   calls (snd (write_float (sim_env {} {}) 32 0x42126666 (start [] (\<lambda>a. 0)))) =
     [WriteCall 32 [0x4212, 0x6666]] \<and>
   fst (read_float (sim_env {} {}) 32 2
         (snd (write_float (sim_env {} {}) 32 0x42126666 (start [] (\<lambda>a. 0))))) =
     Inr (Some 0x42126666)"
proof -
  let ?w = "snd (write_float (sim_env {} {}) 32 0x42126666 (start [] (\<lambda>a. 0)))"
  have f: "is_finite32 0x42126666" by (simp add: is_finite32_def)
  note t = float32_roundtrip [OF f, where env = "sim_env {} {}" and a = 32
      and w = "start [] (\<lambda>a. 0)"]
  have h: "uint (drop_bit 16 (0x42126666 :: 32 word)) = 0x4212"
    "uint ((0x42126666 :: 32 word) AND 0xFFFF) = 0x6666" by simp_all
  have c: "calls ?w = [WriteCall 32 [0x4212, 0x6666]]"
    using t [THEN conjunct1] by (simp only: h) (simp add: start_def)
  have u: "unpack_HH (pack_f 0x42126666) = (0x4212, 0x6666)"
    by (simp only: unpack_HH_pack_f h)
  have r: "read_holding_registers (sim_env {} {}) (device ?w) 32 2 =
      (Some [uint (drop_bit 16 (0x42126666 :: 32 word)), uint ((0x42126666 :: 32 word) AND 0xFFFF)],
       device ?w)"
    by (simp only: h) (simp add: sim_env_def start_def write_float_def u client_write_def logging_def
        Let_def eval_nat_numeral)
  have "fst (read_float (sim_env {} {}) 32 2 ?w) = Inr (Some 0x42126666)"
    using t [THEN conjunct2, rule_format, OF r] .
  with f c show ?thesis by simp
qed

section \<open>Responses of another length\<close>

text \<open>
  Claim C5, as the specification states it, says that decoding a list of words whose
  length is not 2 fails with a distinguished result. A response of three words decodes:
  both functions take its first two words and return a value.
\<close>

theorem decode_wrong_length_counterexample:
  "length [0, 1, 2 :: int] \<noteq> 2 \<and>
   fst (read_uint32 (fixed_env [0, 1, 2]) 30 2 (start [] ())) = Inr (Some 1) \<and>
   fst (read_float (fixed_env [0, 1, 2]) 32 2 (start [] ())) = Inr (Some 1)"
  by (simp add: read_uint32_def read_float_def client_read_def fixed_env_def start_def
      pack_HH_def unpack_f_def)

text \<open>
  Claim C5, amended. Neither \<^verbatim>\<open>read_uint32\<close> nor \<^verbatim>\<open>read_float\<close> looks at the length of
  the response. With two words or more they decode the first two and ignore the rest;
  with fewer than two, the index raises \<^verbatim>\<open>IndexError\<close>, which neither function catches.
\<close>

theorem decode_first_two_words:
  "read_holding_registers env (device w) a n = (Some rs, d) \<Longrightarrow>
   (length rs < 2 \<longrightarrow>
      fst (read_uint32 env a n w) = Inl IndexError \<and>
      fst (read_float env a n w) = Inl IndexError) \<and>
   (2 \<le> length rs \<longrightarrow>
      fst (read_uint32 env a n w) = Inr (Some (push_bit 16 (rs ! 0) OR rs ! 1)) \<and>
      fst (read_float env a n w) =
        (case pack_HH (rs ! 0) (rs ! 1) of
           Inl e \<Rightarrow> Inl e
         | Inr bs \<Rightarrow> Inr (Some (unpack_f bs))))"
proof (intro conjI impI)
  assume r: "read_holding_registers env (device w) a n = (Some rs, d)" and s: "length rs < 2"
  show "fst (read_uint32 env a n w) = Inl IndexError"
    by (simp only: read_short_run (1) [OF r s] fst_conv)
  show "fst (read_float env a n w) = Inl IndexError"
    by (simp only: read_short_run (2) [OF r s] fst_conv)
next
  assume r: "read_holding_registers env (device w) a n = (Some rs, d)" and l: "2 \<le> length rs"
  then obtain r0 r1 rest where rs: "rs = r0 # r1 # rest"
    by (cases rs; cases "tl rs") auto
  show "fst (read_uint32 env a n w) = Inr (Some (push_bit 16 (rs ! 0) OR rs ! 1))"
    using r unfolding rs by (simp add: read_uint32_run)
  show "fst (read_float env a n w) =
        (case pack_HH (rs ! 0) (rs ! 1) of
           Inl e \<Rightarrow> Inl e
         | Inr bs \<Rightarrow> Inr (Some (unpack_f bs)))"
    using r unfolding rs by (simp add: read_float_run)
qed

theorem decode_first_two_words_witness:
  "fst (read_uint32 (fixed_env [0, 1, 2]) 30 2 (start [] ())) = Inr (Some 1) \<and>
   fst (read_uint32 (fixed_env [7]) 30 2 (start [] ())) = Inl IndexError \<and>
   fst (read_float (fixed_env [7]) 32 2 (start [] ())) = Inl IndexError \<and>
   fst (read_float (fixed_env [0x4212, 0x6666, 9]) 32 2 (start [] ())) = Inr (Some 0x42126666) \<and>
   fst (read_float (fixed_env [65536, 0]) 32 2 (start [] ())) = Inl StructError"
proof -
  have r: "read_holding_registers (fixed_env rs) (device (start [] ())) a n = (Some rs, ())" for a n rs
    by (simp add: fixed_env_def)
  show ?thesis
    using decode_first_two_words [OF r [where a = 30 and n = 2 and rs = "[0, 1, 2]"]]
      decode_first_two_words [OF r [where a = 30 and n = 2 and rs = "[7]"]]
      decode_first_two_words [OF r [where a = 32 and n = 2 and rs = "[7]"]]
      decode_first_two_words [OF r [where a = 32 and n = 2 and rs = "[0x4212, 0x6666, 9]"]]
      decode_first_two_words [OF r [where a = 32 and n = 2 and rs = "[65536, 0]"]]
    by (simp add: pack_HH_def unpack_f_def)
qed

section \<open>The two writes of the heating\<close>

lemma registers_spp: "map_of registers ''spp'' = Some \<lparr>address = 36, rtype = UInt32, rlength = 2,
    unit_str = ''W'', description = ''Target Heating Power'', access = RW\<rparr>"
  by (simp add: registers_def)

lemma registers_state: "map_of registers ''state'' = Some \<lparr>address = 30, rtype = UInt32, rlength = 2,
    unit_str = '''', description = ''State'', access = RW\<rparr>"
  by (simp add: registers_def)

text \<open>
  A run of \<^verbatim>\<open>control_heating\<close> on two lines that parse: \<open>e1\<close> and \<open>e2\<close> are the answers
  of the client to the write of the power and to the write of the state.
\<close>

lemma control_heating_run:
  assumes "stdin w = s1 # s2 # rest" and "py_int env s1 = Some p" and "py_int env s2 = Some s"
    and "write_registers env (device w) 36 [drop_bit 16 p AND 0xFFFF, p AND 0xFFFF] = (e1, d1)"
    and "write_registers env d1 30 [drop_bit 16 s AND 0xFFFF, s AND 0xFFFF] = (e2, d2)"
  shows "control_heating env w =
    (Inr (),
     w\<lparr>device := if e1 then d1 else d2,
       calls := calls w @ WriteCall 36 [drop_bit 16 p AND 0xFFFF, p AND 0xFFFF]
         # (if e1 then [] else [WriteCall 30 [drop_bit 16 s AND 0xFFFF, s AND 0xFFFF]]),
       stdin := rest,
       stdout := stdout w @
         [Prompt ''Enter target heating power (W): '',
          Prompt ''Enter system state (e.g., 1 to turn on, 0 to turn off): ''] @
         (if \<not> e1 \<and> \<not> e2 then [Print_updated_heating p s] else []),
       logfile := logfile w @ Info_writing 36 [drop_bit 16 p AND 0xFFFF, p AND 0xFFFF]
         # (if e1 then [Error_writing 36]
            else Info_writing 30 [drop_bit 16 s AND 0xFFFF, s AND 0xFFFF]
              # (if e2 then [Error_writing 30] else [Info_updated_heating p s]))\<rparr>)"
  using assms
  by (cases e1; cases e2)
     (simp_all add: control_heating_def input_def print_line_def logging_def Let_def
        registers_spp registers_state write_uint32_run)

text \<open>
  Claim C8, as the specification states it, says that when the state write fails after
  the power write succeeded, the result reports the failure of the state register. On
  the input lines \<^verbatim>\<open>500\<close> and \<^verbatim>\<open>1\<close>, \<^verbatim>\<open>control_heating\<close> returns normally and prints
  nothing after its two prompts when the write at address 30 fails, exactly as it does
  when the write at address 36 fails; yet the power has been written to the device.
\<close>

theorem control_heating_result_blind_counterexample:
  "fst (control_heating (sim_env {} {30}) (start [''500'', ''1''] (\<lambda>a. 0))) = Inr () \<and>
   stdout (snd (control_heating (sim_env {} {30}) (start [''500'', ''1''] (\<lambda>a. 0)))) =
     [Prompt ''Enter target heating power (W): '',
      Prompt ''Enter system state (e.g., 1 to turn on, 0 to turn off): ''] \<and>
   fst (control_heating (sim_env {} {36}) (start [''500'', ''1''] (\<lambda>a. 0))) =
     fst (control_heating (sim_env {} {30}) (start [''500'', ''1''] (\<lambda>a. 0))) \<and>
   stdout (snd (control_heating (sim_env {} {36}) (start [''500'', ''1''] (\<lambda>a. 0)))) =
     stdout (snd (control_heating (sim_env {} {30}) (start [''500'', ''1''] (\<lambda>a. 0)))) \<and>
   calls (snd (control_heating (sim_env {} {30}) (start [''500'', ''1''] (\<lambda>a. 0)))) =
     [WriteCall 36 [0, 500], WriteCall 30 [0, 1]] \<and>
   device (snd (control_heating (sim_env {} {30}) (start [''500'', ''1''] (\<lambda>a. 0)))) 37 = 500"
  by (simp add: control_heating_def input_def print_line_def logging_def Let_def
      registers_def write_uint32_def client_write_def sim_env_def start_def dec_int_def)

text \<open>
  Claim C8, amended. \<^verbatim>\<open>control_heating\<close> writes the power register (address 36) first
  and, only when that write succeeded, the state register (address 30) next. It prints
  and logs its success line if and only if both writes succeed. It always returns
  normally, and after a failed write the terminal shows the two prompts and nothing
  else. Which write failed is recorded only in the log, by \<^verbatim>\<open>write_uint32\<close>: the record
  for address 36 or the record for address 30. When the state write fails, the device
  is in the state the power write left it in, followed by the failed attempt: the power
  has been applied.
\<close>

theorem control_heating_failure_in_log_only:
  assumes "stdin w = s1 # s2 # rest" and "py_int env s1 = Some p" and "py_int env s2 = Some s"
    and "write_registers env (device w) 36 [drop_bit 16 p AND 0xFFFF, p AND 0xFFFF] = (e1, d1)"
    and "write_registers env d1 30 [drop_bit 16 s AND 0xFFFF, s AND 0xFFFF] = (e2, d2)"
  shows "fst (control_heating env w) = Inr () \<and>
    calls (snd (control_heating env w)) =
      calls w @ WriteCall 36 [drop_bit 16 p AND 0xFFFF, p AND 0xFFFF]
        # (if e1 then [] else [WriteCall 30 [drop_bit 16 s AND 0xFFFF, s AND 0xFFFF]]) \<and>
    stdout (snd (control_heating env w)) =
      stdout w @
        [Prompt ''Enter target heating power (W): '',
         Prompt ''Enter system state (e.g., 1 to turn on, 0 to turn off): ''] @
        (if \<not> e1 \<and> \<not> e2 then [Print_updated_heating p s] else []) \<and>
    logfile (snd (control_heating env w)) =
      logfile w @ Info_writing 36 [drop_bit 16 p AND 0xFFFF, p AND 0xFFFF]
        # (if e1 then [Error_writing 36]
           else Info_writing 30 [drop_bit 16 s AND 0xFFFF, s AND 0xFFFF]
             # (if e2 then [Error_writing 30] else [Info_updated_heating p s])) \<and>
    device (snd (control_heating env w)) = (if e1 then d1 else d2)"
  by (simp only: control_heating_run [OF assms] fst_conv snd_conv) simp

theorem control_heating_failure_in_log_only_witness:
  "fst (control_heating (sim_env {} {30}) (start [''500'', ''1''] (\<lambda>a. 0))) = Inr () \<and>
   calls (snd (control_heating (sim_env {} {30}) (start [''500'', ''1''] (\<lambda>a. 0)))) =
     [WriteCall 36 [0, 500], WriteCall 30 [0, 1]] \<and>
   stdout (snd (control_heating (sim_env {} {30}) (start [''500'', ''1''] (\<lambda>a. 0)))) =
     [Prompt ''Enter target heating power (W): '',
      Prompt ''Enter system state (e.g., 1 to turn on, 0 to turn off): ''] \<and>
   logfile (snd (control_heating (sim_env {} {30}) (start [''500'', ''1''] (\<lambda>a. 0)))) =
     [Info_writing 36 [0, 500], Info_writing 30 [0, 1], Error_writing 30] \<and>
   device (snd (control_heating (sim_env {} {30}) (start [''500'', ''1''] (\<lambda>a. 0)))) 37 = 500 \<and>
   device (snd (control_heating (sim_env {} {30}) (start [''500'', ''1''] (\<lambda>a. 0)))) 31 = 0"
proof -
  let ?E = "sim_env {} {30} :: (int \<Rightarrow> int) env"
  let ?w = "start [''500'', ''1''] (\<lambda>a. 0 :: int)"
  have 1: "stdin ?w = ''500'' # ''1'' # []" by (simp add: start_def)
  have 2: "py_int ?E ''500'' = Some 500" by (simp add: sim_env_def dec_int_def)
  have 3: "py_int ?E ''1'' = Some 1" by (simp add: sim_env_def dec_int_def)
  have 4: "write_registers ?E (device ?w) 36 [drop_bit 16 500 AND 0xFFFF, 500 AND 0xFFFF] =
      (False, (\<lambda>a. 0)(36 := 0, 37 := 500))"
    by (simp add: sim_env_def start_def)
  have 5: "write_registers ?E ((\<lambda>a. 0)(36 := 0, 37 := 500)) 30
        [drop_bit 16 1 AND 0xFFFF, 1 AND 0xFFFF] =
      (True, (\<lambda>a. 0)(36 := 0, 37 := 500))"
    by (simp add: sim_env_def)
  show ?thesis
    using control_heating_failure_in_log_only [OF 1 2 3 4 5]
    by (simp add: start_def)
qed

text \<open>
  Claim C10. When the write of the power register fails, \<^verbatim>\<open>control_heating\<close> makes no
  call for the state register: the write at address 36 is its only call on the client,
  and the device is left as that failed write left it.
\<close>

theorem control_heating_power_fails:
  assumes "stdin w = s1 # s2 # rest" and "py_int env s1 = Some p" and "py_int env s2 = Some s"
    and "write_registers env (device w) 36 [drop_bit 16 p AND 0xFFFF, p AND 0xFFFF] = (True, d1)"
  shows "calls (snd (control_heating env w)) =
      calls w @ [WriteCall 36 [drop_bit 16 p AND 0xFFFF, p AND 0xFFFF]] \<and>
    (\<forall>vs. WriteCall 30 vs \<notin> set (drop (length (calls w)) (calls (snd (control_heating env w))))) \<and>
    device (snd (control_heating env w)) = d1 \<and>
    stdout (snd (control_heating env w)) =
      stdout w @ [Prompt ''Enter target heating power (W): '',
                  Prompt ''Enter system state (e.g., 1 to turn on, 0 to turn off): '']"
proof -
  obtain e2 d2 where
    "write_registers env d1 30 [drop_bit 16 s AND 0xFFFF, s AND 0xFFFF] = (e2, d2)"
    by (cases "write_registers env d1 30 [drop_bit 16 s AND 0xFFFF, s AND 0xFFFF]")
  from control_heating_run [OF assms this] show ?thesis by simp
qed

theorem control_heating_power_fails_witness:
  "calls (snd (control_heating (sim_env {} {36}) (start [''500'', ''1''] ((\<lambda>a. 0)(30 := 7, 31 := 9))))) =
     [WriteCall 36 [0, 500]] \<and>
   device (snd (control_heating (sim_env {} {36}) (start [''500'', ''1''] ((\<lambda>a. 0)(30 := 7, 31 := 9))))) 30 = 7 \<and>
   device (snd (control_heating (sim_env {} {36}) (start [''500'', ''1''] ((\<lambda>a. 0)(30 := 7, 31 := 9))))) 31 = 9"
proof -
  let ?E = "sim_env {} {36} :: (int \<Rightarrow> int) env"
  let ?w = "start [''500'', ''1''] ((\<lambda>a. 0 :: int)(30 := 7, 31 := 9))"
  have 1: "stdin ?w = ''500'' # ''1'' # []" by (simp add: start_def)
  have 2: "py_int ?E ''500'' = Some 500" by (simp add: sim_env_def dec_int_def)
  have 3: "py_int ?E ''1'' = Some 1" by (simp add: sim_env_def dec_int_def)
  have 4: "write_registers ?E (device ?w) 36 [drop_bit 16 500 AND 0xFFFF, 500 AND 0xFFFF] =
      (True, (\<lambda>a. 0)(30 := 7, 31 := 9))"
    by (simp add: sim_env_def start_def)
  show ?thesis
    using control_heating_power_fails [OF 1 2 3 4]
    by (simp add: start_def)
qed

section \<open>The editor\<close>

lemma print_available_registers:
  "print_available registers w =
    w\<lparr>stdout := stdout w @
      [Print_register ''state'' ''State'' 30 '''',
       Print_register ''sptw'' ''Target Water Temperature'' 32 [CHR 0xC2, CHR 0xB0, CHR ''C''],
       Print_register ''sptwh'' ''Hysteresis Water Temperature'' 34 ''K'',
       Print_register ''spp'' ''Target Heating Power'' 36 ''W'',
       Print_register ''ni'' ''Soldering Interval'' 38 ''ms'']\<rparr>"
  by (simp add: registers_def print_line_def)

lemma registers_all_rw: "map_of registers key = Some reg \<Longrightarrow> access reg = RW"
  by (auto simp: registers_def split: if_splits)

lemma change_value_step_quit:
  "stdin w = ''q'' # rest \<Longrightarrow>
   change_value_step env w =
     (Inr False,
      w\<lparr>stdin := rest,
        stdout := stdout w @
          [Prompt (CHR 0x0A # ''Enter the register key to modify (or 'q' to quit): '')]\<rparr>)"
  by (simp add: change_value_step_def input_def print_line_def Let_def)

lemma change_value_step_uint32:
  assumes "stdin w = key # s # rest" and "key \<noteq> ''q''"
    and "map_of registers key = Some reg" and "rtype reg = UInt32"
    and "py_int env s = Some v"
    and "write_registers env (device w) (address reg) [drop_bit 16 v AND 0xFFFF, v AND 0xFFFF] = (e, d)"
  shows "change_value_step env w =
     (Inr True,
      w\<lparr>device := d,
        calls := calls w @ [WriteCall (address reg) [drop_bit 16 v AND 0xFFFF, v AND 0xFFFF]],
        stdin := rest,
        stdout := stdout w @
          [Prompt (CHR 0x0A # ''Enter the register key to modify (or 'q' to quit): ''),
           Prompt (''Enter new value for '' @ key @ '' ('' @ unit_str reg @ ''): ''),
           if e then Print_failed_to_update
           else Print_updated (description reg) (IntV v) (unit_str reg)],
        logfile := logfile w @
          Info_writing (address reg) [drop_bit 16 v AND 0xFFFF, v AND 0xFFFF]
          # (if e then [Error_writing (address reg)]
             else [Info_updated (description reg) (IntV v) (unit_str reg)])\<rparr>)"
  using assms registers_all_rw [OF assms(3)]
  by (cases e)
     (simp_all add: change_value_step_def input_def print_line_def logging_def Let_def
        report_update_def write_uint32_run)

lemma change_value_step_no_parse:
  assumes "stdin w = key # s # rest" and "key \<noteq> ''q''"
    and "map_of registers key = Some reg"
    and "case rtype reg of Float \<Rightarrow> py_float env s = None | UInt32 \<Rightarrow> py_int env s = None"
  shows "change_value_step env w =
     (Inl ValueError,
      w\<lparr>stdin := rest,
        stdout := stdout w @
          [Prompt (CHR 0x0A # ''Enter the register key to modify (or 'q' to quit): ''),
           Prompt (''Enter new value for '' @ key @ '' ('' @ unit_str reg @ ''): '')]\<rparr>)"
  using assms registers_all_rw [OF assms(3)]
  by (cases "rtype reg")
     (simp_all add: change_value_step_def input_def print_line_def Let_def)

lemma change_value_loop_continue:
  "change_value_step env w = (Inr True, w1) \<Longrightarrow> change_value_loop env w = change_value_loop env w1"
  by (subst change_value_loop.simps) simp

lemma change_value_loop_break:
  "change_value_step env w = (Inr False, w1) \<Longrightarrow> change_value_loop env w = (Inr (), w1)"
  by (subst change_value_loop.simps) simp

lemma change_value_loop_raise:
  "change_value_step env w = (Inl e, w1) \<Longrightarrow> change_value_loop env w = (Inl e, w1)"
  by (subst change_value_loop.simps) simp

text \<open>
  Claim C6. In the editor, the key \<^verbatim>\<open>state\<close> followed by the value \<^verbatim>\<open>1\<close> (and then
  \<^verbatim>\<open>q\<close>) makes exactly one call on the client, the write of the words \<^verbatim>\<open>[0, 1]\<close> at
  address 30, and no other. When the client accepts the write, the editor reports the
  update on the terminal and in the log; when the client refuses it, the editor prints
  its failure line. In both cases it returns normally.
\<close>

theorem change_value_state_1:
  assumes "stdin w = ''state'' # ''1'' # ''q'' # rest" and "py_int env ''1'' = Some 1"
    and "write_registers env (device w) 30 [0, 1] = (e, d)"
  shows "fst (change_value env w) = Inr () \<and>
    calls (snd (change_value env w)) = calls w @ [WriteCall 30 [0, 1]] \<and>
    device (snd (change_value env w)) = d \<and>
    stdin (snd (change_value env w)) = rest \<and>
    stdout (snd (change_value env w)) =
      stdout (print_available registers (print_line Print_available w)) @
        [Prompt (CHR 0x0A # ''Enter the register key to modify (or 'q' to quit): ''),
         Prompt ''Enter new value for state (): '',
         if e then Print_failed_to_update else Print_updated ''State'' (IntV 1) '''',
         Prompt (CHR 0x0A # ''Enter the register key to modify (or 'q' to quit): '')] \<and>
    logfile (snd (change_value env w)) =
      logfile w @ Info_writing 30 [0, 1]
        # (if e then [Error_writing 30] else [Info_updated ''State'' (IntV 1) ''''])"
proof -
  let ?reg = "\<lparr>address = 30, rtype = UInt32, rlength = 2, unit_str = '''',
    description = ''State'', access = RW\<rparr>"
  let ?w0 = "print_available registers (print_line Print_available w)"
  have i: "stdin ?w0 = ''state'' # ''1'' # ''q'' # rest"
    using assms(1) by (simp add: print_available_registers print_line_def)
  have q: "''state'' \<noteq> ''q''" by simp
  have t: "rtype ?reg = UInt32" by simp
  have wr: "write_registers env (device ?w0) (address ?reg)
      [drop_bit 16 1 AND 0xFFFF, 1 AND 0xFFFF] = (e, d)"
    using assms(3) by (simp add: print_available_registers print_line_def)
  note s1 = change_value_step_uint32 [OF i q registers_state t assms(2) wr]
  note l1 = change_value_loop_continue [OF s1]
  have "change_value env w =
    (Inr (),
     w\<lparr>device := d, calls := calls w @ [WriteCall 30 [0, 1]], stdin := rest,
       stdout := stdout ?w0 @
         [Prompt (CHR 0x0A # ''Enter the register key to modify (or 'q' to quit): ''),
          Prompt (''Enter new value for '' @ ''state'' @ '' ('' @ '''' @ ''): ''),
          if e then Print_failed_to_update else Print_updated ''State'' (IntV 1) '''',
          Prompt (CHR 0x0A # ''Enter the register key to modify (or 'q' to quit): '')],
       logfile := logfile w @ Info_writing 30 [0, 1]
        # (if e then [Error_writing 30] else [Info_updated ''State'' (IntV 1) ''''])\<rparr>)"
    unfolding change_value_def l1
    by (rule trans [OF change_value_loop_break [OF change_value_step_quit [where rest = rest]]])
       (simp_all add: print_available_registers print_line_def)
  then show ?thesis
    by (simp add: print_available_registers print_line_def)
qed

theorem change_value_state_1_witness:
  "fst (change_value (sim_env {} {}) (start [''state'', ''1'', ''q''] (\<lambda>a. 0))) = Inr () \<and>
   calls (snd (change_value (sim_env {} {}) (start [''state'', ''1'', ''q''] (\<lambda>a. 0)))) =
     [WriteCall 30 [0, 1]] \<and>
   device (snd (change_value (sim_env {} {}) (start [''state'', ''1'', ''q''] (\<lambda>a. 0)))) 31 = 1"
proof -
  let ?E = "sim_env {} {} :: (int \<Rightarrow> int) env"
  let ?w = "start [''state'', ''1'', ''q''] (\<lambda>a. 0 :: int)"
  have 1: "stdin ?w = ''state'' # ''1'' # ''q'' # []" by (simp add: start_def)
  have 2: "py_int ?E ''1'' = Some 1" by (simp add: sim_env_def dec_int_def)
  have 3: "write_registers ?E (device ?w) 30 [0, 1] = (False, (\<lambda>a. 0)(30 := 0, 31 := 1))"
    by (simp add: sim_env_def start_def)
  show ?thesis
    using change_value_state_1 [OF 1 2 3] by (simp add: start_def)
qed

text \<open>
  Claim C7. In the editor, a value that the conversion of the register's type rejects
  (\<^verbatim>\<open>float\<close> for a float register, \<^verbatim>\<open>int\<close> for an integer one) makes no call on the
  client and leaves the device untouched, but it is not turned into a result: the
  \<^verbatim>\<open>ValueError\<close> of the conversion leaves \<^verbatim>\<open>change_value\<close>, which prints no failure
  line and reads no further key.
\<close>

theorem change_value_unparsable_raises:
  assumes "stdin w = key # s # rest" and "key \<noteq> ''q''"
    and "map_of registers key = Some reg"
    and "case rtype reg of Float \<Rightarrow> py_float env s = None | UInt32 \<Rightarrow> py_int env s = None"
  shows "fst (change_value env w) = Inl ValueError \<and>
    calls (snd (change_value env w)) = calls w \<and>
    device (snd (change_value env w)) = device w \<and>
    stdin (snd (change_value env w)) = rest \<and>
    Print_failed_to_update \<notin> set (drop (length (stdout w)) (stdout (snd (change_value env w))))"
proof -
  let ?w0 = "print_available registers (print_line Print_available w)"
  have i: "stdin ?w0 = key # s # rest"
    using assms(1) by (simp add: print_available_registers print_line_def)
  note s1 = change_value_step_no_parse [OF i assms(2) assms(3) assms(4)]
  show ?thesis
    unfolding change_value_def change_value_loop_raise [OF s1]
    by (simp add: print_available_registers print_line_def)
qed

theorem change_value_unparsable_raises_witness:
  "fst (change_value (sim_env {} {}) (start [''sptw'', ''abc'', ''q''] (\<lambda>a. 0))) = Inl ValueError \<and>
   calls (snd (change_value (sim_env {} {}) (start [''sptw'', ''abc'', ''q''] (\<lambda>a. 0)))) = [] \<and>
   stdin (snd (change_value (sim_env {} {}) (start [''sptw'', ''abc'', ''q''] (\<lambda>a. 0)))) = [''q'']"
proof -
  let ?E = "sim_env {} {} :: (int \<Rightarrow> int) env"
  let ?w = "start [''sptw'', ''abc'', ''q''] (\<lambda>a. 0 :: int)"
  let ?reg = "\<lparr>address = 32, rtype = Float, rlength = 2,
        unit_str = [CHR 0xC2, CHR 0xB0, CHR ''C''],
        description = ''Target Water Temperature'', access = RW\<rparr>"
  have 1: "stdin ?w = ''sptw'' # ''abc'' # [''q'']" by (simp add: start_def)
  have 2: "''sptw'' \<noteq> ''q''" by simp
  have 3: "map_of registers ''sptw'' = Some ?reg" by (simp add: registers_def)
  have 4: "case rtype ?reg of Float \<Rightarrow> py_float ?E ''abc'' = None
      | UInt32 \<Rightarrow> py_int ?E ''abc'' = None"
    by (simp add: sim_env_def two_floats_def)
  show ?thesis
    using change_value_unparsable_raises [OF 1 2 3 4] by (simp add: start_def)
qed

text \<open>
  The heating control, by contrast, catches the same \<^verbatim>\<open>ValueError\<close> and reports it.
\<close>

lemma control_heating_invalid_input:
  "stdin w = s1 # rest \<Longrightarrow> py_int env s1 = None \<Longrightarrow>
   control_heating env w =
     (Inr (), w\<lparr>stdin := rest,
        stdout := stdout w @ [Prompt ''Enter target heating power (W): '', Print_invalid_input]\<rparr>)"
  by (simp add: control_heating_def input_def print_line_def Let_def)

section \<open>Monitoring with a failing read\<close>

text \<open>
  A read that fails is reported and the loop goes on: when every response of the client
  has at least two words, all of 16 bits, \<^verbatim>\<open>read_all_values\<close> reads every register of the
  list, in order, whichever reads fail.
\<close>

lemma read_value_calls:
  assumes "\<And>d a n rs. fst (read_holding_registers env d a n) = Some rs \<Longrightarrow>
      2 \<le> length rs \<and> (\<forall>r \<in> set rs. 0 \<le> r \<and> r \<le> 65535)"
  shows "(\<exists>v. fst (read_value env reg w) = Inr v) \<and>
    calls (snd (read_value env reg w)) = calls w @ [ReadCall (address reg) (rlength reg)]"
proof (cases "read_holding_registers env (device w) (address reg) (rlength reg)")
  case (Pair r d)
  show ?thesis
  proof (cases r)
    case None
    with Pair show ?thesis
      by (cases "rtype reg")
         (simp_all add: read_value_def read_float_def read_uint32_def client_read_def logging_def)
  next
    case (Some rs)
    with Pair assms [of "device w" "address reg" "rlength reg" rs]
    have "2 \<le> length rs" and "\<forall>r \<in> set rs. 0 \<le> r \<and> r \<le> 65535"
      by simp_all
    then obtain r0 r1 rest where rs: "rs = r0 # r1 # rest"
      and "0 \<le> r0" "r0 \<le> 65535" "0 \<le> r1" "r1 \<le> 65535"
      by (cases rs; cases "tl rs") auto
    with Pair Some show ?thesis
      by (cases "rtype reg")
         (simp_all add: read_value_def read_float_def read_uint32_def client_read_def pack_HH_def)
  qed
qed

lemma read_all_values_loop_reads_all:
  assumes "\<And>d a n rs. fst (read_holding_registers env d a n) = Some rs \<Longrightarrow>
      2 \<le> length rs \<and> (\<forall>r \<in> set rs. 0 \<le> r \<and> r \<le> 65535)"
  shows "fst (read_all_values_loop env regs w) = Inr () \<and>
    calls (snd (read_all_values_loop env regs w)) =
      calls w @ map (\<lambda>(key, reg). ReadCall (address reg) (rlength reg)) regs"
proof (induction regs arbitrary: w)
  case Nil
  show ?case by simp
next
  case (Cons kr regs)
  obtain key reg where kr: "kr = (key, reg)" by (cases kr)
  have a: "access reg = R \<or> access reg = RW" by (cases "access reg") simp_all
  obtain x w1 where rv: "read_value env reg w = (x, w1)" by (cases "read_value env reg w")
  have "(\<exists>v. fst (read_value env reg w) = Inr v) \<and>
      calls (snd (read_value env reg w)) = calls w @ [ReadCall (address reg) (rlength reg)]"
    by (rule read_value_calls) (rule assms)
  with rv obtain v where
    x: "x = Inr v" and c: "calls w1 = calls w @ [ReadCall (address reg) (rlength reg)]"
    by auto
  show ?case
    by (cases v) (simp_all add: kr a rv x c Cons.IH logging_def print_line_def)
qed



end
